theory Spec2Isabelle
  imports Complex_Main "HOL-Library.AList" "HOL-Library.Char_ord" "HOL-Library.List_Lexorder"
    "HOL-Library.Product_Lexorder"
begin

section \<open>Numbers: numpy's float64\<close>

text \<open>
  Every number the analysis handles is a numpy \<open>float64\<close>. A value is a finite real, one of
  the two infinities, or NaN. Rounding is not modelled: an operation returns the exact real
  result when that lies within the double range, and the infinity of its sign when it lies
  beyond \<open>DBL_MAX\<close>. Signed zeros are not distinguished. So an operation of the model
  returns what the source computes when the exact result is a double (as for the small whole
  numbers of the frames evaluated below) and when an infinity or NaN decides the result; it
  does not show the rounding error of an inexact operation, such as the standard deviation
  1.39e-17 that \<open>np.std\<close> returns for [0.1, 0.1, 0.1], and nothing below is stated about
  such values. numpy's warnings are silenced by
  \<^verbatim>\<open>warnings.filterwarnings('ignore')\<close> in every module, so no operation here raises.
\<close>

datatype float64 = Fin real | PInf | NInf | NaN

definition DBL_MAX :: real where
  "DBL_MAX = 2 ^ 1024 - 2 ^ 971"

definition overflow :: "real \<Rightarrow> float64" where
  "overflow r = (if DBL_MAX < r then PInf else if r < - DBL_MAX then NInf else Fin r)"

fun fneg :: "float64 \<Rightarrow> float64" where
  "fneg (Fin a) = Fin (- a)"
| "fneg PInf = NInf"
| "fneg NInf = PInf"
| "fneg NaN = NaN"

fun fadd :: "float64 \<Rightarrow> float64 \<Rightarrow> float64" where
  "fadd NaN _ = NaN"
| "fadd _ NaN = NaN"
| "fadd PInf NInf = NaN"
| "fadd NInf PInf = NaN"
| "fadd PInf _ = PInf"
| "fadd _ PInf = PInf"
| "fadd NInf _ = NInf"
| "fadd _ NInf = NInf"
| "fadd (Fin a) (Fin b) = overflow (a + b)"

definition fsub :: "float64 \<Rightarrow> float64 \<Rightarrow> float64" where
  "fsub a b = fadd a (fneg b)"

text \<open>The sign of a value, for products and quotients with an infinity: \<open>None\<close> for NaN.\<close>

fun fsign :: "float64 \<Rightarrow> int option" where
  "fsign (Fin a) = Some (if a < 0 then - 1 else if a = 0 then 0 else 1)"
| "fsign PInf = Some 1"
| "fsign NInf = Some (- 1)"
| "fsign NaN = None"

definition inf_of_sign :: "int \<Rightarrow> float64" where
  "inf_of_sign s = (if s < 0 then NInf else if s = 0 then NaN else PInf)"

fun fmul :: "float64 \<Rightarrow> float64 \<Rightarrow> float64" where
  "fmul (Fin a) (Fin b) = overflow (a * b)"
| "fmul x y =
     (case (fsign x, fsign y) of
        (Some s, Some t) \<Rightarrow> inf_of_sign (s * t)
      | _ \<Rightarrow> NaN)"

text \<open>
  Division of two \<open>float64\<close> values never raises: a zero divisor gives an infinity (NaN for
  \<open>0 / 0\<close>), two infinities give NaN, a finite value over an infinity gives zero.
\<close>

fun fdiv :: "float64 \<Rightarrow> float64 \<Rightarrow> float64" where
  "fdiv NaN _ = NaN"
| "fdiv _ NaN = NaN"
| "fdiv (Fin a) (Fin b) =
     (if b = 0 then (if a = 0 then NaN else if 0 < a then PInf else NInf)
      else overflow (a / b))"
| "fdiv (Fin a) _ = Fin 0"
| "fdiv x (Fin b) = (case fsign x of Some s \<Rightarrow> inf_of_sign (if b < 0 then - s else s) | None \<Rightarrow> NaN)"
| "fdiv _ _ = NaN"

fun fsqrt :: "float64 \<Rightarrow> float64" where
  "fsqrt (Fin a) = (if a < 0 then NaN else Fin (sqrt a))"
| "fsqrt PInf = PInf"
| "fsqrt NInf = NaN"
| "fsqrt NaN = NaN"

fun fabs :: "float64 \<Rightarrow> float64" where
  "fabs (Fin a) = Fin \<bar>a\<bar>"
| "fabs PInf = PInf"
| "fabs NInf = PInf"
| "fabs NaN = NaN"

text \<open>Comparison \<open>a < b\<close>: false as soon as one side is NaN.\<close>

fun flt :: "float64 \<Rightarrow> float64 \<Rightarrow> bool" where
  "flt NaN _ = False"
| "flt _ NaN = False"
| "flt (Fin a) (Fin b) = (a < b)"
| "flt NInf NInf = False"
| "flt NInf _ = True"
| "flt _ NInf = False"
| "flt PInf _ = False"
| "flt _ PInf = True"

text \<open>\<open>a > b\<close> in the source is \<open>b < a\<close>.\<close>

definition fgt :: "float64 \<Rightarrow> float64 \<Rightarrow> bool" where
  "fgt a b = flt b a"

fun notna :: "float64 \<Rightarrow> bool" where
  "notna NaN = False"
| "notna _ = True"

section \<open>Exceptions\<close>

datatype exn = ValueError | OtherError string

section \<open>numpy reductions\<close>

text \<open>
  \<open>np.mean\<close> and \<open>np.std\<close> (population standard deviation, \<open>ddof = 0\<close>) return NaN on an
  empty array and never raise; \<open>np.min\<close> and \<open>np.max\<close> raise \<open>ValueError\<close> on an empty array
  ("zero-size array to reduction operation minimum which has no identity").
\<close>

text \<open>
  The sum of a \<open>float64\<close> array is numpy's pairwise summation: fewer than eight values are
  added from left to right; up to 128 values are added in eight interleaved lanes, the lanes
  combined as a balanced tree and the values past the last full group of eight added one by
  one; a longer array is split near the middle, at a multiple of eight, and the sums of the
  halves added.
\<close>

definition lane :: "float64 list \<Rightarrow> nat \<Rightarrow> float64" where
  "lane body j =
     foldl fadd (body ! j) (map (\<lambda>k. body ! (j + 8 * k)) [1 ..< length body div 8])"

definition block_sum :: "float64 list \<Rightarrow> float64" where
  "block_sum xs =
     (let n = length xs; m = n - n mod 8; body = take m xs;
          r = map (lane body) [0 ..< 8];
          res = fadd (fadd (fadd (r ! 0) (r ! 1)) (fadd (r ! 2) (r ! 3)))
                     (fadd (fadd (r ! 4) (r ! 5)) (fadd (r ! 6) (r ! 7)))
      in foldl fadd res (drop m xs))"

function pairwise_sum :: "float64 list \<Rightarrow> float64" where
  "pairwise_sum xs =
     (if length xs < 8 then foldl fadd (Fin 0) xs
      else if length xs \<le> 128 then block_sum xs
      else fadd (pairwise_sum (take (length xs div 2 - length xs div 2 mod 8) xs))
                (pairwise_sum (drop (length xs div 2 - length xs div 2 mod 8) xs)))"
  by pat_completeness auto
termination
  by (relation "measure length") auto

declare pairwise_sum.simps [simp del]

definition np_sum :: "float64 list \<Rightarrow> float64" where
  "np_sum xs = pairwise_sum xs"

definition np_mean :: "float64 list \<Rightarrow> float64" where
  "np_mean xs = fdiv (np_sum xs) (Fin (real (length xs)))"

definition np_std :: "float64 list \<Rightarrow> float64" where
  "np_std xs =
     (let arrmean = np_mean xs;
          x = map (\<lambda>a. fsub a arrmean) xs;
          x2 = map (\<lambda>d. fmul d d) x
      in fsqrt (fdiv (np_sum x2) (Fin (real (length xs)))))"

definition fmin :: "float64 \<Rightarrow> float64 \<Rightarrow> float64" where
  "fmin a b = (if a = NaN \<or> b = NaN then NaN else if flt b a then b else a)"

definition fmax :: "float64 \<Rightarrow> float64 \<Rightarrow> float64" where
  "fmax a b = (if a = NaN \<or> b = NaN then NaN else if flt a b then b else a)"

fun np_min :: "float64 list \<Rightarrow> exn + float64" where
  "np_min [] = Inl ValueError"
| "np_min (x # xs) = Inr (foldl fmin x xs)"

fun np_max :: "float64 list \<Rightarrow> exn + float64" where
  "np_max [] = Inl ValueError"
| "np_max (x # xs) = Inr (foldl fmax x xs)"

fun finsert :: "float64 \<Rightarrow> float64 list \<Rightarrow> float64 list" where
  "finsert a [] = [a]"
| "finsert a (b # bs) = (if flt b a then b # finsert a bs else a # b # bs)"

definition fsort :: "float64 list \<Rightarrow> float64 list" where
  "fsort xs = foldr finsert xs []"

text \<open>\<open>np.median\<close>: NaN on an empty array or when a NaN is present, else the middle of the
  sorted values (the mean of the two middle values for an even count).\<close>

definition np_median :: "float64 list \<Rightarrow> float64" where
  "np_median xs =
     (let n = length xs; s = fsort xs
      in if n = 0 \<or> NaN \<in> set xs then NaN
         else if odd n then s ! (n div 2)
         else np_mean [s ! (n div 2 - 1), s ! (n div 2)])"

section \<open>The statistics library\<close>

text \<open>
  The hypothesis tests and correlation coefficients come from scipy and the random subsample
  from pandas; none of them is code of this repository, so they are parameters of the model.
  Each scipy routine returns a pair (statistic, p-value) or raises; \<open>wilcoxon\<close> stands for
  the call with \<^verbatim>\<open>alternative='two-sided'\<close>, the only one the source makes. \<open>sample\<close> is
  \<open>Series.sample(n)\<close> with no \<open>random_state\<close>: it draws from numpy's process-wide generator,
  whose state \<open>'g\<close> it reads and advances.
\<close>

record 'g stats_lib =
  shapiro :: "float64 list \<Rightarrow> exn + (float64 \<times> float64)"
  ttest_rel :: "float64 list \<Rightarrow> float64 list \<Rightarrow> exn + (float64 \<times> float64)"
  wilcoxon :: "float64 list \<Rightarrow> float64 list \<Rightarrow> exn + (float64 \<times> float64)"
  pearsonr :: "float64 list \<Rightarrow> float64 list \<Rightarrow> exn + (float64 \<times> float64)"
  spearmanr :: "float64 list \<Rightarrow> float64 list \<Rightarrow> exn + (float64 \<times> float64)"
  sample :: "'g \<Rightarrow> nat \<Rightarrow> float64 list \<Rightarrow> float64 list \<times> 'g"

section \<open>Normality Classifier\<close>

text \<open>
  \<open>test_normality\<close> of \<^verbatim>\<open>experiment_analyzer.py\<close> and of
  \<^verbatim>\<open>generate_experiment_report.py\<close> (the two bodies are the same). The bare
  \<^verbatim>\<open>except:\<close> turns every exception of \<open>shapiro\<close> into the verdict \<open>(False, 0.0)\<close>.
\<close>

definition test_normality :: "'g stats_lib \<Rightarrow> 'g \<Rightarrow> float64 list \<Rightarrow> (bool \<times> float64) \<times> 'g" where
  "test_normality lib g data =
     (if length data < 3 then ((False, Fin 1), g)
      else
        let (smp, g') =
              (if 5000 < length data then sample lib g (min 5000 (length data)) data
               else (data, g))
        in case shapiro lib smp of
             Inr (stat, p_value) \<Rightarrow> ((fgt p_value (Fin 0.05), p_value), g')
           | Inl e \<Rightarrow> ((False, Fin 0), g'))"

text \<open>The sample handed to \<open>shapiro\<close>, and the generator state after the draw.\<close>

definition tested_sample :: "'g stats_lib \<Rightarrow> 'g \<Rightarrow> float64 list \<Rightarrow> float64 list \<times> 'g" where
  "tested_sample lib g data =
     (if 5000 < length data then sample lib g (min 5000 (length data)) data else (data, g))"

section \<open>Measurements and the paired groups\<close>

text \<open>
  One row of \<^verbatim>\<open>experiment_data.csv\<close> as \<open>load_data\<close> leaves it. An empty cell of a text
  column is pandas' missing value (\<open>None\<close> here): \<open>groupby\<close> drops a row whose key has one,
  and it equals no label. \<open>pd.to_numeric(errors='coerce')\<close> has turned a malformed number
  into NaN.
\<close>

record measurement =
  repository_owner :: "string option"
  repository_name :: "string option"
  query_type :: "string option"
  api_type :: "string option"
  response_time_ms :: float64
  response_size_bytes :: float64
  success :: bool


type_synonym group_key = "string \<times> string \<times> string"

definition key_of :: "measurement \<Rightarrow> group_key option" where
  "key_of m =
     (case (repository_owner m, repository_name m, query_type m) of
        (Some owner, Some name, Some qt) \<Rightarrow> Some (owner, name, qt)
      | _ \<Rightarrow> None)"

text \<open>
  \<open>df.groupby([...])\<close>: one group per distinct key, in ascending key order, each holding its
  rows in their order in the frame.
\<close>

definition groupby :: "measurement list \<Rightarrow> (group_key \<times> measurement list) list" where
  "groupby df =
     map (\<lambda>k. (k, filter (\<lambda>m. key_of m = Some k) df))
       (sort (remdups (List.map_filter key_of df)))"

text \<open>\<open>frame[frame['api_type'] == label][column].values\<close>\<close>

definition values_of :: "string \<Rightarrow> (measurement \<Rightarrow> float64) \<Rightarrow> measurement list \<Rightarrow> float64 list" where
  "values_of label col frame = map col (filter (\<lambda>m. api_type m = Some label) frame)"

record paired_result =
  repository :: string
  r_query_type :: string
  graphql_mean :: float64
  rest_mean :: float64
  difference :: float64

text \<open>
  The loop that opens \<open>analyze_rq1\<close> and \<open>analyze_rq2\<close> in both modules: a group enters
  \<open>results\<close> only when it has a value on both sides. (The analyzer's dictionaries also keep
  the raw arrays of the group, which nothing reads afterwards.)
\<close>

definition paired_results :: "(measurement \<Rightarrow> float64) \<Rightarrow> measurement list \<Rightarrow> paired_result list" where
  "paired_results col df =
     List.map_filter
       (\<lambda>((repo_owner, repo_name, qt), grp).
          let graphql_times = values_of ''graphql'' col grp;
              rest_times = values_of ''rest'' col grp
          in if 0 < length graphql_times \<and> 0 < length rest_times
             then Some \<lparr> repository = repo_owner @ ''/'' @ repo_name,
                         r_query_type = qt,
                         graphql_mean = np_mean graphql_times,
                         rest_mean = np_mean rest_times,
                         difference = fsub (np_mean graphql_times) (np_mean rest_times) \<rparr>
             else None)
       (groupby df)"

section \<open>Descriptive statistics\<close>

record descriptive =
  s_mean :: float64
  s_median :: float64
  s_std :: float64
  s_min :: float64
  s_max :: float64
  s_count :: nat

text \<open>The dictionary literal evaluates its entries in order; \<open>np.min\<close> is the first that can raise.\<close>

definition describe :: "float64 list \<Rightarrow> exn + descriptive" where
  "describe xs =
     (case np_min xs of
        Inl e \<Rightarrow> Inl e
      | Inr lo \<Rightarrow>
          (case np_max xs of
             Inl e \<Rightarrow> Inl e
           | Inr hi \<Rightarrow>
               Inr \<lparr> s_mean = np_mean xs, s_median = np_median xs, s_std = np_std xs,
                     s_min = lo, s_max = hi, s_count = length xs \<rparr>))"

section \<open>Effect Size Calculator\<close>

text \<open>
  \<^verbatim>\<open>mean_diff = np.mean(paired_differences)\<close>,
  \<^verbatim>\<open>std_diff = np.std(paired_differences)\<close>,
  \<^verbatim>\<open>cohens_d = mean_diff / std_diff if std_diff > 0 else 0\<close>.
\<close>

definition cohens_d_of :: "float64 list \<Rightarrow> float64" where
  "cohens_d_of paired_differences =
     (let mean_diff = np_mean paired_differences;
          std_diff = np_std paired_differences
      in if fgt std_diff (Fin 0) then fdiv mean_diff std_diff else Fin 0)"

section \<open>Test Selector and Executor\<close>

text \<open>The texts of the source, with the code points of their accented letters.\<close>

definition no_difference :: string where
  "no_difference =
     ''N'' @ [CHR 0xE3] @ ''o h'' @ [CHR 0xE1] @ '' diferen'' @ [CHR 0xE7]
       @ ''a significativa entre GraphQL e REST''"

definition graphql_faster_text :: string where
  "graphql_faster_text =
     ''GraphQL '' @ [CHR 0xE9] @ '' significativamente mais r'' @ [CHR 0xE1] @ ''pido que REST''"

definition rest_faster_text :: string where
  "rest_faster_text =
     ''REST '' @ [CHR 0xE9] @ '' significativamente mais r'' @ [CHR 0xE1] @ ''pido que GraphQL''"



definition insufficient_analyzer :: string where
  "insufficient_analyzer =
     ''Dados insuficientes para an'' @ [CHR 0xE1] @ ''lise estat'' @ [CHR 0xED] @ ''stica''"

definition insufficient_report :: string where
  "insufficient_report = ''Dados insuficientes''"

text \<open>The keys the two modules' result dictionaries share, and the keys each adds.\<close>

record rq_result =
  graphql_stats :: descriptive
  rest_stats :: descriptive
  test_name :: string
  p_value :: float64
  cohens_d :: float64
  conclusion :: string

record analyzer_result = rq_result +
  mean_difference :: float64
  graphql_faster :: bool

record report_result = rq_result +
  graphql_normal :: bool
  rest_normal :: bool
  graphql_p :: float64
  rest_p :: float64

text \<open>
  The \<^verbatim>\<open>if graphql_normal and rest_normal: ... else: ...\<close> block: the test that runs, on the
  per-group means, with the name the source gives it. Neither call is inside a
  \<^verbatim>\<open>try\<close>, so what the routine raises leaves the analysis.
\<close>

definition run_test ::
  "'g stats_lib \<Rightarrow> bool \<Rightarrow> bool \<Rightarrow> paired_result list \<Rightarrow> exn + (float64 \<times> float64 \<times> string)" where
  "run_test lib g_normal r_normal results =
     (if g_normal \<and> r_normal then
        (case ttest_rel lib (map graphql_mean results) (map rest_mean results) of
           Inl e \<Rightarrow> Inl e
         | Inr (t_stat, p) \<Rightarrow> Inr (t_stat, p, ''Teste t pareado''))
      else
        (case wilcoxon lib (map graphql_mean results) (map rest_mean results) of
           Inl e \<Rightarrow> Inl e
         | Inr (t_stat, p) \<Rightarrow> Inr (t_stat, p, ''Teste de Wilcoxon'')))"

definition conclude :: "string \<Rightarrow> string \<Rightarrow> float64 \<Rightarrow> float64 \<Rightarrow> string" where
  "conclude graphql_text rest_text p mean_diff =
     (if flt p (Fin 0.05) then (if flt mean_diff (Fin 0) then graphql_text else rest_text)
      else no_difference)"

text \<open>
  \<open>ExperimentAnalyzer.analyze_rq1\<close> and \<open>analyze_rq2\<close> of \<^verbatim>\<open>experiment_analyzer.py\<close>
  differ in the column they read and in the two texts of a significant result; this is
  their common body. The generator state is threaded through the two normality tests.
\<close>

definition analyze_paired ::
  "'g stats_lib \<Rightarrow> (measurement \<Rightarrow> float64) \<Rightarrow> string \<Rightarrow> string \<Rightarrow> 'g \<Rightarrow> measurement list
     \<Rightarrow> exn + (analyzer_result \<times> 'g)" where
  "analyze_paired lib col graphql_text rest_text g df =
     (let results = paired_results col df;
          all_graphql = values_of ''graphql'' col df;
          all_rest = values_of ''rest'' col df
      in case describe all_graphql of
           Inl e \<Rightarrow> Inl e
         | Inr gstats \<Rightarrow>
         (case describe all_rest of
           Inl e \<Rightarrow> Inl e
         | Inr rstats \<Rightarrow>
           let ((g_normal, g_p), g1) = test_normality lib g all_graphql;
               ((r_normal, r_p), g2) = test_normality lib g1 all_rest;
               paired_differences = map difference results
           in if 1 < length paired_differences then
                (case run_test lib g_normal r_normal results of
                   Inl e \<Rightarrow> Inl e
                 | Inr (t_stat, p, name) \<Rightarrow>
                     Inr (\<lparr> graphql_stats = gstats, rest_stats = rstats,
                            test_name = name, p_value = p,
                            cohens_d = cohens_d_of paired_differences,
                            conclusion = conclude graphql_text rest_text p (np_mean paired_differences),
                            mean_difference = np_mean paired_differences,
                            graphql_faster = flt (np_mean paired_differences) (Fin 0) \<rparr>, g2))
              else
                Inr (\<lparr> graphql_stats = gstats, rest_stats = rstats,
                       test_name = ''N/A'', p_value = Fin 1,
                       cohens_d = Fin 0,
                       conclusion = insufficient_analyzer,
                       mean_difference =
                         (if paired_differences \<noteq> [] then np_mean paired_differences else Fin 0),
                       graphql_faster =
                         (if paired_differences \<noteq> [] then flt (np_mean paired_differences) (Fin 0)
                          else False) \<rparr>, g2)))"

definition analyze_rq1 :: "'g stats_lib \<Rightarrow> 'g \<Rightarrow> measurement list \<Rightarrow> exn + (analyzer_result \<times> 'g)" where
  "analyze_rq1 lib g df = analyze_paired lib response_time_ms graphql_faster_text rest_faster_text g df"


text \<open>
  \<open>GraphQLvsRESTReportGenerator.analyze_rq1\<close> and \<open>analyze_rq2\<close> of
  \<^verbatim>\<open>generate_experiment_report.py\<close>: the same steps, another result dictionary and
  another text for too few pairs.
\<close>

definition report_analyze_paired ::
  "'g stats_lib \<Rightarrow> (measurement \<Rightarrow> float64) \<Rightarrow> string \<Rightarrow> string \<Rightarrow> 'g \<Rightarrow> measurement list
     \<Rightarrow> exn + (report_result \<times> 'g)" where
  "report_analyze_paired lib col graphql_text rest_text g df =
     (let results = paired_results col df;
          all_graphql = values_of ''graphql'' col df;
          all_rest = values_of ''rest'' col df
      in case describe all_graphql of
           Inl e \<Rightarrow> Inl e
         | Inr gstats \<Rightarrow>
         (case describe all_rest of
           Inl e \<Rightarrow> Inl e
         | Inr rstats \<Rightarrow>
           let ((g_normal, g_p), g1) = test_normality lib g all_graphql;
               ((r_normal, r_p), g2) = test_normality lib g1 all_rest;
               paired_differences = map difference results
           in if 1 < length paired_differences then
                (case run_test lib g_normal r_normal results of
                   Inl e \<Rightarrow> Inl e
                 | Inr (t_stat, p, name) \<Rightarrow>
                     Inr (\<lparr> graphql_stats = gstats, rest_stats = rstats,
                            test_name = name, p_value = p,
                            cohens_d = cohens_d_of paired_differences,
                            conclusion = conclude graphql_text rest_text p (np_mean paired_differences),
                            graphql_normal = g_normal, rest_normal = r_normal,
                            graphql_p = g_p, rest_p = r_p \<rparr>, g2))
              else
                Inr (\<lparr> graphql_stats = gstats, rest_stats = rstats,
                       test_name = ''N/A'', p_value = Fin 1,
                       cohens_d = Fin 0,
                       conclusion = insufficient_report,
                       graphql_normal = g_normal, rest_normal = r_normal,
                       graphql_p = g_p, rest_p = r_p \<rparr>, g2)))"

definition report_analyze_rq1 :: "'g stats_lib \<Rightarrow> 'g \<Rightarrow> measurement list \<Rightarrow> exn + (report_result \<times> 'g)" where
  "report_analyze_rq1 lib g df =
     report_analyze_paired lib response_time_ms graphql_faster_text rest_faster_text g df"


section \<open>The two programs\<close>



section \<open>Correlation Classifier\<close>

text \<open>
  A pull request of \<^verbatim>\<open>generate_report.py\<close> after \<open>load_data\<close>, reduced to the six
  numeric columns the research questions read. A missing value is NaN.
\<close>

record pr_row =
  pr_size_score :: float64
  analysis_time_hours :: float64
  pr_description_length :: float64
  total_interactions :: float64
  pr_status_binary :: float64
  pr_reviews_count :: float64

definition process_metrics :: "string list" where
  "process_metrics =
     [''pr_size_score'', ''analysis_time_hours'', ''pr_description_length'', ''total_interactions'']"

definition outcome_metrics :: "string list" where
  "outcome_metrics = [''pr_status_binary'', ''pr_reviews_count'']"

definition columns :: "string list" where
  "columns = process_metrics @ outcome_metrics"

definition cell :: "string \<Rightarrow> pr_row \<Rightarrow> float64" where
  "cell c r =
     (if c = ''pr_size_score'' then pr_size_score r
      else if c = ''analysis_time_hours'' then analysis_time_hours r
      else if c = ''pr_description_length'' then pr_description_length r
      else if c = ''total_interactions'' then total_interactions r
      else if c = ''pr_status_binary'' then pr_status_binary r
      else pr_reviews_count r)"

text \<open>\<open>data[c]\<close>: a name that is not a column raises \<open>KeyError\<close>.\<close>

definition KeyError :: exn where
  "KeyError = OtherError ''KeyError''"

definition column_values :: "string \<Rightarrow> pr_row list \<Rightarrow> exn + float64 list" where
  "column_values c data = (if c \<in> set columns then Inr (map (cell c) data) else Inl KeyError)"

text \<open>\<open>data[c].notna().sum()\<close>, for a column \<open>c\<close> of the frame.\<close>

definition notna_count :: "string \<Rightarrow> pr_row list \<Rightarrow> nat" where
  "notna_count c data = length (filter (\<lambda>r. notna (cell c r)) data)"

record coefficient =
  correlation :: float64
  c_p_value :: float64

record correlation_pair =
  pearson :: coefficient
  spearman :: coefficient

text \<open>The entry of the \<^verbatim>\<open>else\<close> branch: the integers 0 and 1.\<close>

definition no_correlation :: correlation_pair where
  "no_correlation =
     \<lparr> pearson = \<lparr> correlation = Fin 0, c_p_value = Fin 1 \<rparr>,
       spearman = \<lparr> correlation = Fin 0, c_p_value = Fin 1 \<rparr> \<rparr>"

text \<open>
  The loop of \<open>calculate_correlations\<close> over \<open>quality_metrics\<close>, with the dictionary built so
  far: assigning to a key that is present replaces its value in place.
\<close>

fun correlations_loop ::
  "'g stats_lib \<Rightarrow> pr_row list \<Rightarrow> string \<Rightarrow> string list \<Rightarrow> (string \<times> correlation_pair) list
     \<Rightarrow> exn + (string \<times> correlation_pair) list" where
  "correlations_loop lib data process_metric [] correlations = Inr correlations"
| "correlations_loop lib data process_metric (quality_metric # rest) correlations =
     (if quality_metric \<in> set columns \<and> 10 < notna_count quality_metric data then
        (case column_values process_metric data of
           Inl e \<Rightarrow> Inl e
         | Inr x \<Rightarrow>
         (case column_values quality_metric data of
           Inl e \<Rightarrow> Inl e
         | Inr y \<Rightarrow>
         (case pearsonr lib x y of
           Inl e \<Rightarrow> Inl e
         | Inr (pearson_corr, pearson_p) \<Rightarrow>
         (case spearmanr lib x y of
           Inl e \<Rightarrow> Inl e
         | Inr (spearman_corr, spearman_p) \<Rightarrow>
             correlations_loop lib data process_metric rest
               (AList.update quality_metric
                  \<lparr> pearson = \<lparr> correlation = pearson_corr, c_p_value = pearson_p \<rparr>,
                    spearman = \<lparr> correlation = spearman_corr, c_p_value = spearman_p \<rparr> \<rparr>
                  correlations)))))
      else
        correlations_loop lib data process_metric rest
          (AList.update quality_metric no_correlation correlations))"

definition calculate_correlations ::
  "'g stats_lib \<Rightarrow> pr_row list \<Rightarrow> string \<Rightarrow> string list \<Rightarrow> exn + (string \<times> correlation_pair) list" where
  "calculate_correlations lib data process_metric quality_metrics =
     correlations_loop lib data process_metric quality_metrics []"

text \<open>\<open>self.df.dropna(subset=process_metrics + outcome_metrics)\<close>\<close>

definition valid_data :: "pr_row list \<Rightarrow> pr_row list" where
  "valid_data df = filter (\<lambda>r. list_all (\<lambda>c. notna (cell c r)) columns) df"

text \<open>The eight research questions: identifier, process metric, outcome metric.\<close>

definition research_questions :: "(string \<times> string \<times> string) list" where
  "research_questions =
     [(''RQ01'', ''pr_size_score'', ''pr_status_binary''),
      (''RQ02'', ''analysis_time_hours'', ''pr_status_binary''),
      (''RQ03'', ''pr_description_length'', ''pr_status_binary''),
      (''RQ04'', ''total_interactions'', ''pr_status_binary''),
      (''RQ05'', ''pr_size_score'', ''pr_reviews_count''),
      (''RQ06'', ''analysis_time_hours'', ''pr_reviews_count''),
      (''RQ07'', ''pr_description_length'', ''pr_reviews_count''),
      (''RQ08'', ''total_interactions'', ''pr_reviews_count'')]"

fun questions_loop ::
  "'g stats_lib \<Rightarrow> pr_row list \<Rightarrow> (string \<times> string \<times> string) list
     \<Rightarrow> exn + (string \<times> (string \<times> correlation_pair) list) list" where
  "questions_loop lib data [] = Inr []"
| "questions_loop lib data ((rq, process_metric, outcome_metric) # rest) =
     (case calculate_correlations lib data process_metric [outcome_metric] of
        Inl e \<Rightarrow> Inl e
      | Inr correlations \<Rightarrow>
        (case questions_loop lib data rest of
           Inl e \<Rightarrow> Inl e
         | Inr results \<Rightarrow> Inr ((rq, correlations) # results)))"

text \<open>
  \<open>analyze_research_questions\<close>: the \<open>correlations\<close> entry of each question, in order. (The
  question texts and \<open>summary_stats\<close>, pandas reductions that return NaN on an empty column,
  are left out.)
\<close>

definition analyze_research_questions ::
  "'g stats_lib \<Rightarrow> pr_row list \<Rightarrow> exn + (string \<times> (string \<times> correlation_pair) list) list" where
  "analyze_research_questions lib df = questions_loop lib (valid_data df) research_questions"

text \<open>The ten interpretations of \<open>format_correlation_table\<close>, each in the words of the source.\<close>

definition correlacao :: string where
  "correlacao = ''Correla'' @ [CHR 0xE7, CHR 0xE3] @ ''o ''"

definition nao_confiavel :: string where
  "nao_confiavel = '' (n'' @ [CHR 0xE3] @ ''o confi'' @ [CHR 0xE1] @ ''vel)''"

definition interpretation_of :: "correlation_pair \<Rightarrow> string" where
  "interpretation_of corr_data =
     (let pearson_r = correlation (pearson corr_data);
          pearson_p = c_p_value (pearson corr_data);
          spearman_r = correlation (spearman corr_data);
          spearman_p = c_p_value (spearman corr_data);
          magnitude = fabs pearson_r;
          is_significant = flt pearson_p (Fin 0.05)
      in if flt magnitude (Fin 0.1) then
           (if is_significant then correlacao @ ''detect'' @ [CHR 0xE1] @ ''vel''
            else correlacao @ ''inexistente'')
         else if flt magnitude (Fin 0.3) then
           (if is_significant then correlacao @ ''fraca''
            else correlacao @ ''fraca'' @ nao_confiavel)
         else if flt magnitude (Fin 0.5) then
           (if is_significant then correlacao @ ''moderada''
            else correlacao @ ''moderada'' @ nao_confiavel)
         else if flt magnitude (Fin 0.7) then
           (if is_significant then correlacao @ ''forte''
            else correlacao @ ''forte'' @ nao_confiavel)
         else
           (if is_significant then correlacao @ ''muito forte''
            else correlacao @ ''muito forte'' @ nao_confiavel))"

record table_row =
  t_metric :: string
  t_pearson_r :: float64
  t_pearson_p :: float64
  t_spearman_r :: float64
  t_spearman_p :: float64
  t_interpretation :: string

text \<open>
  \<open>format_correlation_table\<close>: one row per entry of the dictionary, kept as its six cells
  (the rendering of a cell, upper case and three decimals, is presentation).
\<close>

definition format_correlation_table :: "(string \<times> correlation_pair) list \<Rightarrow> table_row list" where
  "format_correlation_table correlations =
     map (\<lambda>(metric, corr_data).
            \<lparr> t_metric = metric,
              t_pearson_r = correlation (pearson corr_data),
              t_pearson_p = c_p_value (pearson corr_data),
              t_spearman_r = correlation (spearman corr_data),
              t_spearman_p = c_p_value (spearman corr_data),
              t_interpretation = interpretation_of corr_data \<rparr>)
         correlations"

section \<open>Reference definitions\<close>

text \<open>
  The classification table as the specification words it: five magnitude ranges of the linear
  coefficient, each with a label for \<open>p < 0.05\<close> and one for \<open>p \<ge> 0.05\<close>.
\<close>

datatype strength =
  Detectable | Inexistent | Weak | WeakUnreliable | Moderate | ModerateUnreliable
  | Strong | StrongUnreliable | VeryStrong | VeryStrongUnreliable

definition classification_table :: "(real option \<times> real option \<times> strength \<times> strength) list" where
  "classification_table =
     [(None, Some 0.1, Detectable, Inexistent),
      (Some 0.1, Some 0.3, Weak, WeakUnreliable),
      (Some 0.3, Some 0.5, Moderate, ModerateUnreliable),
      (Some 0.5, Some 0.7, Strong, StrongUnreliable),
      (Some 0.7, None, VeryStrong, VeryStrongUnreliable)]"

definition in_range :: "real option \<Rightarrow> real option \<Rightarrow> real \<Rightarrow> bool" where
  "in_range lo hi m =
     ((case lo of None \<Rightarrow> True | Some l \<Rightarrow> l \<le> m) \<and> (case hi of None \<Rightarrow> True | Some h \<Rightarrow> m < h))"

text \<open>Every label of the table that applies to \<open>(r, p)\<close>.\<close>

definition labels_for :: "real \<Rightarrow> real \<Rightarrow> strength list" where
  "labels_for r p =
     map (\<lambda>(lo, hi, significant, unreliable). if p < 0.05 then significant else unreliable)
       (filter (\<lambda>(lo, hi, significant, unreliable). in_range lo hi \<bar>r\<bar>) classification_table)"

text \<open>The source's text for each label of the table.\<close>

fun label_text :: "strength \<Rightarrow> string" where
  "label_text Detectable = correlacao @ ''detect'' @ [CHR 0xE1] @ ''vel''"
| "label_text Inexistent = correlacao @ ''inexistente''"
| "label_text Weak = correlacao @ ''fraca''"
| "label_text WeakUnreliable = correlacao @ ''fraca'' @ nao_confiavel"
| "label_text Moderate = correlacao @ ''moderada''"
| "label_text ModerateUnreliable = correlacao @ ''moderada'' @ nao_confiavel"
| "label_text Strong = correlacao @ ''forte''"
| "label_text StrongUnreliable = correlacao @ ''forte'' @ nao_confiavel"
| "label_text VeryStrong = correlacao @ ''muito forte''"
| "label_text VeryStrongUnreliable = correlacao @ ''muito forte'' @ nao_confiavel"

text \<open>The arithmetic mean and the population standard deviation of a list of reals.\<close>

definition arithmetic_mean :: "real list \<Rightarrow> real" where
  "arithmetic_mean rs = sum_list rs / real (length rs)"

definition population_std :: "real list \<Rightarrow> real" where
  "population_std rs =
     sqrt (sum_list (map (\<lambda>r. (r - arithmetic_mean rs)\<^sup>2) rs) / real (length rs))"

section \<open>A library instance and sample frames\<close>

text \<open>
  To run the analyses on a concrete frame the library has to be instantiated. In this
  instance every routine returns a fixed pair, with two exceptions taken from the degenerate
  inputs of the routines themselves. \<open>shapiro\<close> returns the statistic 1 and the p-value 1 for
  a sample whose values are all equal, as \<open>scipy.stats.shapiro\<close> does (it warns that the
  range is zero and does not raise). \<open>wilcoxon\<close> rejects a pair of samples whose differences
  are zero for all elements with \<open>ValueError\<close>, as \<open>scipy.stats.wilcoxon\<close> does with its
  default \<open>zero_method\<close> in SciPy releases before 1.13; later releases return a p-value for
  such a pair. The subsample is the first \<open>n\<close> values, and a draw advances the generator
  state by one.
\<close>

definition zero_for_all :: "float64 list \<Rightarrow> float64 list \<Rightarrow> bool" where
  "zero_for_all x y = list_all (\<lambda>(a, b). fsub a b = Fin 0) (zip x y)"

definition constant_sample :: "float64 list \<Rightarrow> bool" where
  "constant_sample xs = list_all (\<lambda>x. x = hd xs) xs"

definition demo_lib :: "nat stats_lib" where
  "demo_lib =
     \<lparr> shapiro = (\<lambda>xs. if constant_sample xs then Inr (Fin 1, Fin 1) else Inr (Fin 0.9, Fin 0.5)),
       ttest_rel = (\<lambda>x y. Inr (Fin (- 3), Fin 0.01)),
       wilcoxon = (\<lambda>x y. if zero_for_all x y then Inl ValueError else Inr (Fin 0, Fin 0.25)),
       pearsonr = (\<lambda>x y. Inr (Fin 0.5, Fin 0.01)),
       spearmanr = (\<lambda>x y. Inr (Fin 0.4, Fin 0.02)),
       sample = (\<lambda>g n xs. (take n xs, Suc g)) \<rparr>"

text \<open>The same library with a \<open>shapiro\<close> that fails on every sample.\<close>

definition failing_shapiro_lib :: "nat stats_lib" where
  "failing_shapiro_lib = demo_lib \<lparr> shapiro := (\<lambda>xs. Inl (OtherError ''FloatingPointError'')) \<rparr>"

definition trial :: "string \<Rightarrow> string \<Rightarrow> real \<Rightarrow> measurement" where
  "trial repo api t =
     \<lparr> repository_owner = Some ''octo'', repository_name = Some repo, query_type = Some ''simple'',
       api_type = Some api, response_time_ms = Fin t, response_size_bytes = Fin (100 * t),
       success = True \<rparr>"

text \<open>Scenario A of the specification: paired values A = [10, 12, 11], B = [20, 22, 21].\<close>

definition scenario_a :: "measurement list" where
  "scenario_a =
     [trial ''a'' ''graphql'' 10, trial ''a'' ''rest'' 20,
      trial ''b'' ''graphql'' 12, trial ''b'' ''rest'' 22,
      trial ''c'' ''graphql'' 11, trial ''c'' ''rest'' 21]"

text \<open>Two repositories, each measured once per API, every value 5: all differences are zero.\<close>

definition tied_frame :: "measurement list" where
  "tied_frame =
     [trial ''a'' ''graphql'' 5, trial ''a'' ''rest'' 5,
      trial ''b'' ''graphql'' 5, trial ''b'' ''rest'' 5]"

text \<open>Two repositories with untied values.\<close>

definition two_pairs :: "measurement list" where
  "two_pairs =
     [trial ''a'' ''graphql'' 10, trial ''a'' ''rest'' 20,
      trial ''b'' ''graphql'' 12, trial ''b'' ''rest'' 25]"

text \<open>Only the REST measurements succeeded.\<close>

definition rest_only :: "measurement list" where
  "rest_only = [trial ''a'' ''rest'' 20, trial ''b'' ''rest'' 22]"

definition pull_request :: "real \<Rightarrow> real \<Rightarrow> pr_row" where
  "pull_request score reviews =
     \<lparr> pr_size_score = Fin score, analysis_time_hours = Fin 24, pr_description_length = Fin 120,
       total_interactions = Fin 3, pr_status_binary = Fin 1, pr_reviews_count = Fin reviews \<rparr>"

text \<open>Scenario C of the specification: five pull requests.\<close>

definition five_prs :: "pr_row list" where
  "five_prs =
     [pull_request 1 1, pull_request 2 2, pull_request 3 3, pull_request 4 4, pull_request 5 5]"



text \<open>A strong, significant linear coefficient beside a negligible rank coefficient.\<close>

definition strong_pair :: correlation_pair where
  "strong_pair =
     \<lparr> pearson = \<lparr> correlation = Fin (- 0.5), c_p_value = Fin 0.01 \<rparr>,
       spearman = \<lparr> correlation = Fin 0.05, c_p_value = Fin 0.9 \<rparr> \<rparr>"

section \<open>Facts about the number model\<close>

lemma DBL_MAX_large: "10 ^ 308 < DBL_MAX"
  unfolding DBL_MAX_def by simp

lemma DBL_MAX_below: "DBL_MAX < 2 * 10 ^ 308"
  unfolding DBL_MAX_def by simp

lemma overflow_in_range: "\<bar>r\<bar> \<le> DBL_MAX \<Longrightarrow> overflow r = Fin r"
  by (auto simp: overflow_def)

lemma overflow_small: "\<bar>r\<bar> \<le> 10 ^ 308 \<Longrightarrow> overflow r = Fin r"
  using DBL_MAX_large by (intro overflow_in_range) linarith

lemma np_sum_short: "length xs < 8 \<Longrightarrow> np_sum xs = foldl fadd (Fin 0) xs"
  by (simp add: np_sum_def pairwise_sum.simps)

text \<open>Eight values are added in lanes: the sum stays finite where a left fold overflows.\<close>

lemma np_mean_eight_values:
  "np_mean [Fin (10 ^ 308), Fin 0, Fin (10 ^ 308), Fin (- (10 ^ 308)), Fin 0, Fin 0, Fin 0, Fin 0]
     = Fin (10 ^ 308 / 8)"
  by (simp add: np_mean_def np_sum_def pairwise_sum.simps block_sum_def lane_def overflow_small
      upt_conv_Cons nth_Cons')

section \<open>Normality Classifier: the three branches\<close>

lemma test_normality_tested:
  "3 \<le> length data \<Longrightarrow> tested_sample lib g data = (smp, g') \<Longrightarrow>
   test_normality lib g data =
     (case shapiro lib smp of
        Inr (stat, p) \<Rightarrow> ((fgt p (Fin 0.05), p), g')
      | Inl e \<Rightarrow> ((False, Fin 0), g'))"
  by (auto simp: test_normality_def tested_sample_def split: if_splits)

text \<open>
  C6. A sample of fewer than three values is classified not normal with p-value 1.0, and the
  goodness-of-fit test is not invoked: the verdict is the same whatever \<open>shapiro\<close> is, and
  the generator state is untouched.
\<close>

theorem normality_below_three:
  "length data < 3 \<Longrightarrow>
     test_normality lib g data = ((False, Fin 1), g)
     \<and> test_normality (lib\<lparr>shapiro := s\<rparr>) g data = test_normality lib g data"
  by (simp add: test_normality_def)

theorem normality_below_three_witness:
  "length [Fin 4, Fin 7] < 3
   \<and> test_normality demo_lib 0 [Fin 4, Fin 7] = ((False, Fin 1), 0)
   \<and> test_normality (demo_lib\<lparr>shapiro := shapiro failing_shapiro_lib\<rparr>) 0 [Fin 4, Fin 7]
       = test_normality demo_lib 0 [Fin 4, Fin 7]"
  using normality_below_three [of "[Fin 4, Fin 7]" demo_lib 0 "shapiro failing_shapiro_lib"]
  by simp

text \<open>
  C7, as the claim states it, fails for the degenerate constant sample it names. The
  classifier has no branch for such a sample: [5, 5, 5] is handed to \<open>shapiro\<close> like any
  other, \<open>shapiro\<close> returns the p-value 1 for it without raising, and the verdict is
  \<open>(True, 1.0)\<close>, not \<open>(False, 0.0)\<close>.
\<close>

theorem constant_sample_classified_normal:
  "shapiro demo_lib [Fin 5, Fin 5, Fin 5] = Inr (Fin 1, Fin 1)
   \<and> test_normality demo_lib 0 [Fin 5, Fin 5, Fin 5] = ((True, Fin 1), 0)"
  by (simp add: test_normality_def demo_lib_def constant_sample_def fgt_def)

text \<open>
  C7, amended. For a sample of at least three values, with \<open>smp\<close> the sample handed to the
  test (the data itself, or the subsample of 5000): when \<open>shapiro\<close> returns a p-value the
  verdict is \<open>is_normal = (p_value > 0.05)\<close> with that p-value, and when \<open>shapiro\<close> raises,
  whatever the exception, the verdict is \<open>(False, 0.0)\<close> and nothing is propagated. A
  constant sample is no exception to either half.
\<close>

theorem normality_decision:
  assumes "3 \<le> length data" and "tested_sample lib g data = (smp, g')"
  shows "(\<forall>stat p. shapiro lib smp = Inr (stat, p) \<longrightarrow>
            test_normality lib g data = ((fgt p (Fin 0.05), p), g'))
         \<and> (\<forall>e. shapiro lib smp = Inl e \<longrightarrow>
            test_normality lib g data = ((False, Fin 0), g'))"
  using test_normality_tested [OF assms] by simp

theorem normality_decision_witness:
  "test_normality demo_lib 0 [Fin 10, Fin 12, Fin 11] = ((True, Fin 0.5), 0)
   \<and> test_normality failing_shapiro_lib 0 [Fin 4, Fin 7, Fin 9] = ((False, Fin 0), 0)"
proof -
  have a: "tested_sample demo_lib 0 [Fin 10, Fin 12, Fin 11] = ([Fin 10, Fin 12, Fin 11], 0)"
    by (simp add: tested_sample_def)
  have b: "tested_sample failing_shapiro_lib 0 [Fin 4, Fin 7, Fin 9] = ([Fin 4, Fin 7, Fin 9], 0)"
    by (simp add: tested_sample_def)
  have "test_normality demo_lib 0 [Fin 10, Fin 12, Fin 11] = ((True, Fin 0.5), 0)"
    using normality_decision [OF _ a] by (simp add: demo_lib_def constant_sample_def fgt_def)
  moreover have "test_normality failing_shapiro_lib 0 [Fin 4, Fin 7, Fin 9] = ((False, Fin 0), 0)"
    using normality_decision [OF _ b] by (simp add: failing_shapiro_lib_def)
  ultimately show ?thesis by simp
qed

text \<open>
  C10. In every branch, a verdict \<open>is_normal = True\<close> comes with a p-value above 0.05. The
  converse fails: a sample of fewer than three values is classified not normal with
  p-value 1.0, which is above 0.05.
\<close>

theorem normal_implies_p_above:
  "(test_normality lib g data = ((True, p), g') \<longrightarrow> fgt p (Fin 0.05))
   \<and> (length data < 3 \<longrightarrow>
        test_normality lib g data = ((False, Fin 1), g) \<and> fgt (Fin 1) (Fin 0.05))"
  by (auto simp: test_normality_def fgt_def split: if_splits sum.splits prod.splits)

theorem normal_implies_p_above_witness:
  "test_normality demo_lib 0 [Fin 10, Fin 12, Fin 11] = ((True, Fin 0.5), 0)
   \<and> fgt (Fin 0.5) (Fin 0.05)
   \<and> test_normality demo_lib 0 [] = ((False, Fin 1), 0) \<and> fgt (Fin 1) (Fin 0.05)"
proof -
  have a: "test_normality demo_lib 0 [Fin 10, Fin 12, Fin 11] = ((True, Fin 0.5), 0)"
    by (simp add: test_normality_def demo_lib_def constant_sample_def fgt_def)
  show ?thesis
    using a normal_implies_p_above [of demo_lib 0 "[Fin 10, Fin 12, Fin 11]" "Fin 0.5" 0]
      normal_implies_p_above [of demo_lib 0 "[]" "Fin 1" 0]
    by simp
qed

section \<open>Paired groups and pooled samples\<close>

lemma describe_nonempty: "xs \<noteq> [] \<Longrightarrow> \<exists>d. describe xs = Inr d"
  by (cases xs) (simp_all add: describe_def)

lemma describe_empty: "describe [] = Inl ValueError"
  by (simp add: describe_def)

lemma groupby_subset: "(k, grp) \<in> set (groupby df) \<Longrightarrow> set grp \<subseteq> set df"
  by (auto simp: groupby_def)

lemma values_of_mono:
  "set grp \<subseteq> set df \<Longrightarrow> values_of label col grp \<noteq> [] \<Longrightarrow> values_of label col df \<noteq> []"
  by (auto simp: values_of_def filter_empty_conv)

lemma in_map_filterD:
  "y \<in> set (List.map_filter f xs) \<Longrightarrow> \<exists>x\<in>set xs. f x = Some y"
  by (induction xs) (auto split: option.splits)

text \<open>A paired group has a value on both sides, so each pooled sample has one too.\<close>

lemma paired_results_pooled:
  assumes "paired_results col df \<noteq> []"
  shows "values_of ''graphql'' col df \<noteq> [] \<and> values_of ''rest'' col df \<noteq> []"
proof -
  from assms obtain r where "r \<in> set (paired_results col df)"
    by (cases "paired_results col df") auto
  then obtain kg where kg: "kg \<in> set (groupby df)"
    and ne: "0 < length (values_of ''graphql'' col (snd kg))
             \<and> 0 < length (values_of ''rest'' col (snd kg))"
    unfolding paired_results_def
    by (fastforce dest!: in_map_filterD simp: Let_def split: if_splits prod.splits)
  from kg have "set (snd kg) \<subseteq> set df"
    using groupby_subset [of "fst kg" "snd kg" df] by simp
  with ne show ?thesis
    using values_of_mono by blast
qed

text \<open>
  With more than one paired group both pooled samples are non-empty, the descriptive
  statistics are computed, and the analysis is what the selected test makes of the group means.
\<close>

lemma analyze_paired_many:
  assumes n: "1 < length (paired_results col df)"
    and vg: "test_normality lib g (values_of ''graphql'' col df) = ((g_normal, g_p), g1)"
    and vr: "test_normality lib g1 (values_of ''rest'' col df) = ((r_normal, r_p), g2)"
  shows "\<exists>gstats rstats.
     analyze_paired lib col ta tb g df =
       (case run_test lib g_normal r_normal (paired_results col df) of
          Inl e \<Rightarrow> Inl e
        | Inr (t_stat, p, name) \<Rightarrow>
            Inr (\<lparr> graphql_stats = gstats, rest_stats = rstats, test_name = name, p_value = p,
                   cohens_d = cohens_d_of (map difference (paired_results col df)),
                   conclusion = conclude ta tb p (np_mean (map difference (paired_results col df))),
                   mean_difference = np_mean (map difference (paired_results col df)),
                   graphql_faster = flt (np_mean (map difference (paired_results col df))) (Fin 0) \<rparr>, g2))"
proof -
  from n have "paired_results col df \<noteq> []" by auto
  then have "values_of ''graphql'' col df \<noteq> []" "values_of ''rest'' col df \<noteq> []"
    using paired_results_pooled by blast+
  then obtain dg dr where d: "describe (values_of ''graphql'' col df) = Inr dg"
      "describe (values_of ''rest'' col df) = Inr dr"
    using describe_nonempty by blast
  show ?thesis
    using n vg vr d
    by (auto simp: analyze_paired_def Let_def split: prod.splits sum.splits)
qed

lemma report_analyze_paired_many:
  assumes n: "1 < length (paired_results col df)"
    and vg: "test_normality lib g (values_of ''graphql'' col df) = ((g_normal, g_p), g1)"
    and vr: "test_normality lib g1 (values_of ''rest'' col df) = ((r_normal, r_p), g2)"
  shows "\<exists>gstats rstats.
     report_analyze_paired lib col ta tb g df =
       (case run_test lib g_normal r_normal (paired_results col df) of
          Inl e \<Rightarrow> Inl e
        | Inr (t_stat, p, name) \<Rightarrow>
            Inr (\<lparr> graphql_stats = gstats, rest_stats = rstats, test_name = name, p_value = p,
                   cohens_d = cohens_d_of (map difference (paired_results col df)),
                   conclusion = conclude ta tb p (np_mean (map difference (paired_results col df))),
                   graphql_normal = g_normal, rest_normal = r_normal,
                   graphql_p = g_p, rest_p = r_p \<rparr>, g2))"
proof -
  from n have "paired_results col df \<noteq> []" by auto
  then have "values_of ''graphql'' col df \<noteq> []" "values_of ''rest'' col df \<noteq> []"
    using paired_results_pooled by blast+
  then obtain dg dr where d: "describe (values_of ''graphql'' col df) = Inr dg"
      "describe (values_of ''rest'' col df) = Inr dr"
    using describe_nonempty by blast
  show ?thesis
    using n vg vr d
    by (auto simp: report_analyze_paired_def Let_def split: prod.splits sum.splits)
qed

section \<open>Sample frames, evaluated\<close>

lemmas frame_eval = paired_results_def groupby_def trial_def key_of_def values_of_def
      np_mean_def np_sum_short overflow_small fsub_def

lemma scenario_a_results:
  "paired_results response_time_ms scenario_a =
     [\<lparr> repository = ''octo/a'', r_query_type = ''simple'', graphql_mean = Fin 10, rest_mean = Fin 20, difference = Fin (- 10) \<rparr>,
      \<lparr> repository = ''octo/b'', r_query_type = ''simple'', graphql_mean = Fin 12, rest_mean = Fin 22, difference = Fin (- 10) \<rparr>,
      \<lparr> repository = ''octo/c'', r_query_type = ''simple'', graphql_mean = Fin 11, rest_mean = Fin 21, difference = Fin (- 10) \<rparr>]"
  by (simp add: scenario_a_def frame_eval)

lemma scenario_a_pooled:
  "values_of ''graphql'' response_time_ms scenario_a = [Fin 10, Fin 12, Fin 11]"
  "values_of ''rest'' response_time_ms scenario_a = [Fin 20, Fin 22, Fin 21]"
  by (simp_all add: scenario_a_def values_of_def trial_def)

lemma two_pairs_results:
  "paired_results response_time_ms two_pairs =
     [\<lparr> repository = ''octo/a'', r_query_type = ''simple'', graphql_mean = Fin 10, rest_mean = Fin 20, difference = Fin (- 10) \<rparr>,
      \<lparr> repository = ''octo/b'', r_query_type = ''simple'', graphql_mean = Fin 12, rest_mean = Fin 25, difference = Fin (- 13) \<rparr>]"
  by (simp add: two_pairs_def frame_eval)

lemma two_pairs_pooled:
  "values_of ''graphql'' response_time_ms two_pairs = [Fin 10, Fin 12]"
  "values_of ''rest'' response_time_ms two_pairs = [Fin 20, Fin 25]"
  by (simp_all add: two_pairs_def values_of_def trial_def)

lemma tied_frame_results:
  "paired_results response_time_ms tied_frame =
     [\<lparr> repository = ''octo/a'', r_query_type = ''simple'', graphql_mean = Fin 5, rest_mean = Fin 5, difference = Fin 0 \<rparr>,
      \<lparr> repository = ''octo/b'', r_query_type = ''simple'', graphql_mean = Fin 5, rest_mean = Fin 5, difference = Fin 0 \<rparr>]"
  by (simp add: tied_frame_def frame_eval)

lemma tied_frame_pooled:
  "values_of ''graphql'' response_time_ms tied_frame = [Fin 5, Fin 5]"
  "values_of ''rest'' response_time_ms tied_frame = [Fin 5, Fin 5]"
  by (simp_all add: tied_frame_def values_of_def trial_def)

lemma demo_normality_three:
  "length xs = 3 \<Longrightarrow> \<not> constant_sample xs \<Longrightarrow>
   test_normality demo_lib g xs = ((True, Fin 0.5), g)"
  by (simp add: test_normality_def demo_lib_def fgt_def)

lemma normality_two:
  "length xs = 2 \<Longrightarrow> test_normality lib g xs = ((False, Fin 1), g)"
  by (simp add: test_normality_def)

section \<open>Test Selector and Executor: which test runs\<close>

text \<open>
  C1. With more than one paired group, and with the two normality verdicts computed on the
  pooled values of each API (\<open>values_of\<close> over the whole frame, not over the paired means):
  when both verdicts are normal the outcome of the analysis (its test name and p-value, or
  the exception) is that of \<open>ttest_rel\<close> on the per-group mean pairs, and otherwise it is that
  of the two-sided \<open>wilcoxon\<close> on the same pairs. This holds for \<open>analyze_rq1\<close> of both modules.
\<close>

theorem test_selection:
  assumes n: "1 < length (paired_results response_time_ms df)"
    and vg: "test_normality lib g (values_of ''graphql'' response_time_ms df) = ((g_normal, g_p), g1)"
    and vr: "test_normality lib g1 (values_of ''rest'' response_time_ms df) = ((r_normal, r_p), g2)"
  shows
    "map_sum id (\<lambda>(r, s). (test_name r, p_value r)) (analyze_rq1 lib g df)
       = (if g_normal \<and> r_normal
          then map_sum id (\<lambda>(t, p). (''Teste t pareado'', p))
                 (ttest_rel lib (map graphql_mean (paired_results response_time_ms df))
                                (map rest_mean (paired_results response_time_ms df)))
          else map_sum id (\<lambda>(t, p). (''Teste de Wilcoxon'', p))
                 (wilcoxon lib (map graphql_mean (paired_results response_time_ms df))
                               (map rest_mean (paired_results response_time_ms df))))
     \<and> map_sum id (\<lambda>(r, s). (test_name r, p_value r)) (report_analyze_rq1 lib g df)
       = (if g_normal \<and> r_normal
          then map_sum id (\<lambda>(t, p). (''Teste t pareado'', p))
                 (ttest_rel lib (map graphql_mean (paired_results response_time_ms df))
                                (map rest_mean (paired_results response_time_ms df)))
          else map_sum id (\<lambda>(t, p). (''Teste de Wilcoxon'', p))
                 (wilcoxon lib (map graphql_mean (paired_results response_time_ms df))
                               (map rest_mean (paired_results response_time_ms df))))"
proof -
  obtain gs rs where a: "analyze_rq1 lib g df =
       (case run_test lib g_normal r_normal (paired_results response_time_ms df) of
          Inl e \<Rightarrow> Inl e
        | Inr (t_stat, p, name) \<Rightarrow>
            Inr (\<lparr> graphql_stats = gs, rest_stats = rs, test_name = name, p_value = p,
                   cohens_d = cohens_d_of (map difference (paired_results response_time_ms df)),
                   conclusion = conclude graphql_faster_text rest_faster_text p (np_mean (map difference (paired_results response_time_ms df))),
                   mean_difference = np_mean (map difference (paired_results response_time_ms df)),
                   graphql_faster = flt (np_mean (map difference (paired_results response_time_ms df))) (Fin 0) \<rparr>, g2))"
    using analyze_paired_many [OF n vg vr] unfolding analyze_rq1_def by blast
  obtain gs' rs' where b: "report_analyze_rq1 lib g df =
       (case run_test lib g_normal r_normal (paired_results response_time_ms df) of
          Inl e \<Rightarrow> Inl e
        | Inr (t_stat, p, name) \<Rightarrow>
            Inr (\<lparr> graphql_stats = gs', rest_stats = rs', test_name = name, p_value = p,
                   cohens_d = cohens_d_of (map difference (paired_results response_time_ms df)),
                   conclusion = conclude graphql_faster_text rest_faster_text p (np_mean (map difference (paired_results response_time_ms df))),
                   graphql_normal = g_normal, rest_normal = r_normal,
                   graphql_p = g_p, rest_p = r_p \<rparr>, g2))"
    using report_analyze_paired_many [OF n vg vr] unfolding report_analyze_rq1_def by blast
  show ?thesis
    unfolding a b by (auto simp: run_test_def split: sum.splits)
qed


theorem test_selection_witness:
  "1 < length (paired_results response_time_ms scenario_a)
   \<and> map_sum id (\<lambda>(r, s). (test_name r, p_value r)) (analyze_rq1 demo_lib 0 scenario_a)
       = Inr (''Teste t pareado'', Fin 0.01)
   \<and> map_sum id (\<lambda>(r, s). (test_name r, p_value r)) (report_analyze_rq1 demo_lib 0 two_pairs)
       = Inr (''Teste de Wilcoxon'', Fin 0.25)"
proof -
  have n: "1 < length (paired_results response_time_ms scenario_a)"
    by (simp add: scenario_a_results)
  have n2: "1 < length (paired_results response_time_ms two_pairs)"
    by (simp add: two_pairs_results)
  have vg: "test_normality demo_lib 0 (values_of ''graphql'' response_time_ms scenario_a) = ((True, Fin 0.5), 0)"
    by (simp add: scenario_a_pooled demo_normality_three constant_sample_def)
  have vr: "test_normality demo_lib 0 (values_of ''rest'' response_time_ms scenario_a) = ((True, Fin 0.5), 0)"
    by (simp add: scenario_a_pooled demo_normality_three constant_sample_def)
  have vg2: "test_normality demo_lib 0 (values_of ''graphql'' response_time_ms two_pairs) = ((False, Fin 1), 0)"
    by (simp add: two_pairs_pooled normality_two)
  have vr2: "test_normality demo_lib 0 (values_of ''rest'' response_time_ms two_pairs) = ((False, Fin 1), 0)"
    by (simp add: two_pairs_pooled normality_two)
  have nz: "\<not> zero_for_all [Fin 10, Fin 12] [Fin 20, Fin 25]"
    by (simp add: zero_for_all_def fsub_def overflow_small)
  show ?thesis
    using n test_selection [OF n vg vr] test_selection [OF n2 vg2 vr2] nz
    by (simp add: demo_lib_def two_pairs_results)
qed


section \<open>Test Selector and Executor: a degenerate rank test\<close>

lemma run_test_rank:
  "\<not> (g_normal \<and> r_normal) \<Longrightarrow>
   run_test lib g_normal r_normal results =
     (case wilcoxon lib (map graphql_mean results) (map rest_mean results) of
        Inl e \<Rightarrow> Inl e
      | Inr (t_stat, p) \<Rightarrow> Inr (t_stat, p, ''Teste de Wilcoxon''))"
  by (auto simp: run_test_def)

lemma tied_zero: "zero_for_all [Fin 5, Fin 5] [Fin 5, Fin 5]"
  by (simp add: zero_for_all_def fsub_def overflow_small)

lemma untied_nonzero: "\<not> zero_for_all [Fin 10, Fin 12] [Fin 20, Fin 25]"
  by (simp add: zero_for_all_def fsub_def overflow_small)

text \<open>
  C3, as the claim states it, fails: the claim is that an error of the rank test on tied
  input is absorbed, and the analysis has nothing that absorbs it. Two repositories measured
  once per API, every value 5: the pooled samples have two values each, so both are
  classified not normal and the rank test runs on the pairs ([5, 5], [5, 5]). When the
  routine raises \<open>ValueError\<close> on these all-zero differences, as SciPy's does before release
  1.13, the whole analysis raises that \<open>ValueError\<close>, in both modules. (With a release whose
  routine returns on this input the analysis returns too; what it then reports is the
  routine's own p-value, as the amended statement below says.)
\<close>

theorem tied_pairs_raise:
  "wilcoxon demo_lib [Fin 5, Fin 5] [Fin 5, Fin 5] = Inl ValueError
   \<and> analyze_rq1 demo_lib 0 tied_frame = Inl ValueError
   \<and> report_analyze_rq1 demo_lib 0 tied_frame = Inl ValueError"
proof -
  have lib: "wilcoxon demo_lib [Fin 5, Fin 5] [Fin 5, Fin 5] = Inl ValueError"
    using tied_zero by (simp add: demo_lib_def)
  have n: "1 < length (paired_results response_time_ms tied_frame)"
    by (simp add: tied_frame_results)
  have vg: "test_normality demo_lib 0 (values_of ''graphql'' response_time_ms tied_frame) = ((False, Fin 1), 0)"
    by (simp add: tied_frame_pooled normality_two)
  have vr: "test_normality demo_lib 0 (values_of ''rest'' response_time_ms tied_frame) = ((False, Fin 1), 0)"
    by (simp add: tied_frame_pooled normality_two)
  have w: "run_test demo_lib False False (paired_results response_time_ms tied_frame) = Inl ValueError"
    using tied_zero by (simp add: run_test_def tied_frame_results demo_lib_def)
  show ?thesis
    using lib analyze_paired_many [OF n vg vr, of graphql_faster_text rest_faster_text]
      report_analyze_paired_many [OF n vg vr, of graphql_faster_text rest_faster_text]
    by (auto simp: w analyze_rq1_def report_analyze_rq1_def)
qed

text \<open>
  C3, amended. Whenever more than one paired group exists and the rank test is selected, tied
  input or not, the analysis adds no handling of its own: it raises exactly the exception
  \<open>wilcoxon\<close> raises, and when \<open>wilcoxon\<close> returns, the p-value reported is the one it
  returned (1.0 for tied input exactly when the routine returns 1.0). This holds for
  \<open>analyze_rq1\<close> of both modules.
\<close>

theorem rank_test_outcome_unchanged:
  assumes n: "1 < length (paired_results response_time_ms df)"
    and vg: "test_normality lib g (values_of ''graphql'' response_time_ms df) = ((g_normal, g_p), g1)"
    and vr: "test_normality lib g1 (values_of ''rest'' response_time_ms df) = ((r_normal, r_p), g2)"
    and rank: "\<not> (g_normal \<and> r_normal)"
  shows
    "map_sum id (\<lambda>(r, s). p_value r) (analyze_rq1 lib g df)
       = map_sum id snd (wilcoxon lib (map graphql_mean (paired_results response_time_ms df))
                                      (map rest_mean (paired_results response_time_ms df)))
     \<and> map_sum id (\<lambda>(r, s). p_value r) (report_analyze_rq1 lib g df)
       = map_sum id snd (wilcoxon lib (map graphql_mean (paired_results response_time_ms df))
                                      (map rest_mean (paired_results response_time_ms df)))"
proof -
  obtain gs rs where a: "analyze_rq1 lib g df =
       (case run_test lib g_normal r_normal (paired_results response_time_ms df) of
          Inl e \<Rightarrow> Inl e
        | Inr (t_stat, p, name) \<Rightarrow>
            Inr (\<lparr> graphql_stats = gs, rest_stats = rs, test_name = name, p_value = p,
                   cohens_d = cohens_d_of (map difference (paired_results response_time_ms df)),
                   conclusion = conclude graphql_faster_text rest_faster_text p (np_mean (map difference (paired_results response_time_ms df))),
                   mean_difference = np_mean (map difference (paired_results response_time_ms df)),
                   graphql_faster = flt (np_mean (map difference (paired_results response_time_ms df))) (Fin 0) \<rparr>, g2))"
    using analyze_paired_many [OF n vg vr] unfolding analyze_rq1_def by blast
  obtain gs' rs' where b: "report_analyze_rq1 lib g df =
       (case run_test lib g_normal r_normal (paired_results response_time_ms df) of
          Inl e \<Rightarrow> Inl e
        | Inr (t_stat, p, name) \<Rightarrow>
            Inr (\<lparr> graphql_stats = gs', rest_stats = rs', test_name = name, p_value = p,
                   cohens_d = cohens_d_of (map difference (paired_results response_time_ms df)),
                   conclusion = conclude graphql_faster_text rest_faster_text p (np_mean (map difference (paired_results response_time_ms df))),
                   graphql_normal = g_normal, rest_normal = r_normal,
                   graphql_p = g_p, rest_p = r_p \<rparr>, g2))"
    using report_analyze_paired_many [OF n vg vr] unfolding report_analyze_rq1_def by blast
  show ?thesis
    unfolding a b run_test_rank [OF rank] by (auto split: sum.splits)
qed

theorem rank_test_outcome_unchanged_witness:
  "map_sum id (\<lambda>(r, s). p_value r) (analyze_rq1 demo_lib 0 tied_frame) = Inl ValueError
   \<and> map_sum id (\<lambda>(r, s). p_value r) (report_analyze_rq1 demo_lib 0 two_pairs) = Inr (Fin 0.25)"
proof -
  have n: "1 < length (paired_results response_time_ms tied_frame)"
    by (simp add: tied_frame_results)
  have vg: "test_normality demo_lib 0 (values_of ''graphql'' response_time_ms tied_frame) = ((False, Fin 1), 0)"
    by (simp add: tied_frame_pooled normality_two)
  have vr: "test_normality demo_lib 0 (values_of ''rest'' response_time_ms tied_frame) = ((False, Fin 1), 0)"
    by (simp add: tied_frame_pooled normality_two)
  have n2: "1 < length (paired_results response_time_ms two_pairs)"
    by (simp add: two_pairs_results)
  have vg2: "test_normality demo_lib 0 (values_of ''graphql'' response_time_ms two_pairs) = ((False, Fin 1), 0)"
    by (simp add: two_pairs_pooled normality_two)
  have vr2: "test_normality demo_lib 0 (values_of ''rest'' response_time_ms two_pairs) = ((False, Fin 1), 0)"
    by (simp add: two_pairs_pooled normality_two)
  show ?thesis
    using rank_test_outcome_unchanged [OF n vg vr] rank_test_outcome_unchanged [OF n2 vg2 vr2]
      tied_zero untied_nonzero
    by (simp add: demo_lib_def two_pairs_results tied_frame_results)
qed

section \<open>Test Selector and Executor: at most one paired group\<close>

lemma rest_only_results: "paired_results response_time_ms rest_only = []"
  by (simp add: rest_only_def frame_eval)

lemma rest_only_pooled: "values_of ''graphql'' response_time_ms rest_only = []"
  by (simp add: rest_only_def values_of_def trial_def)

text \<open>
  C4 at a frame in which only the REST measurements succeeded: there is no paired group, and
  the analysis raises \<open>ValueError\<close> (from \<open>np.min\<close> of the empty GraphQL sample, while
  building the descriptive statistics) instead of returning the result for insufficient data.
  This holds whatever the library and the generator state are.
\<close>

theorem empty_side_raises:
  "length (paired_results response_time_ms rest_only) \<le> 1
   \<and> analyze_rq1 lib g rest_only = Inl ValueError
   \<and> report_analyze_rq1 lib g rest_only = Inl ValueError"
  by (simp add: rest_only_results analyze_rq1_def report_analyze_rq1_def analyze_paired_def
      report_analyze_paired_def rest_only_pooled describe_empty)

text \<open>
  When each API has at least one value in the frame, at most one paired group gives the
  result for insufficient data: no test name, p-value 1.0, effect size 0.
\<close>

lemma few_pairs_result:
  assumes n: "length (paired_results col df) \<le> 1"
    and ne: "values_of ''graphql'' col df \<noteq> []" "values_of ''rest'' col df \<noteq> []"
  shows "(\<exists>r g'. analyze_paired lib col ta tb g df = Inr (r, g') \<and> test_name r = ''N/A''
            \<and> p_value r = Fin 1 \<and> cohens_d r = Fin 0 \<and> conclusion r = insufficient_analyzer)
       \<and> (\<exists>r g'. report_analyze_paired lib col ta tb g df = Inr (r, g') \<and> test_name r = ''N/A''
            \<and> p_value r = Fin 1 \<and> cohens_d r = Fin 0 \<and> conclusion r = insufficient_report)"
proof -
  from ne obtain dg dr where d: "describe (values_of ''graphql'' col df) = Inr dg"
      "describe (values_of ''rest'' col df) = Inr dr"
    using describe_nonempty by blast
  show ?thesis
    using n d
    by (auto simp: analyze_paired_def report_analyze_paired_def Let_def split: prod.splits)
qed


section \<open>Correlation Classifier: the floor of ten pairs\<close>

lemma length_filter_mono:
  "(\<And>x. P x \<Longrightarrow> Q x) \<Longrightarrow> length (filter P xs) \<le> length (filter Q xs)"
  by (induction xs) auto

lemma notna_count_le: "notna_count c data \<le> length data"
  by (simp add: notna_count_def)

lemma calculate_correlations_few:
  "notna_count quality_metric data \<le> 10 \<Longrightarrow>
   calculate_correlations lib data process_metric [quality_metric]
     = Inr [(quality_metric, no_correlation)]"
  by (simp add: calculate_correlations_def)

lemma questions_loop_few:
  "length data \<le> 10 \<Longrightarrow>
   questions_loop lib data qs = Inr (map (\<lambda>(rq, pm, qm). (rq, [(qm, no_correlation)])) qs)"
proof (induction qs)
  case Nil
  then show ?case by simp
next
  case (Cons q qs)
  obtain rq pm qm where q: "q = (rq, pm, qm)" by (cases q) auto
  have "notna_count qm data \<le> 10"
    using Cons.prems notna_count_le [of qm data] by linarith
  then show ?case
    using Cons q by (simp add: calculate_correlations_few)
qed

lemma question_columns:
  "(rq, pm, qm) \<in> set research_questions \<Longrightarrow> pm \<in> set columns \<and> qm \<in> set columns"
  by (auto simp: research_questions_def columns_def process_metrics_def outcome_metrics_def)

text \<open>
  C5. The frame the correlations are computed on keeps the rows in which all six metrics are
  present. So when a research question has at most ten rows with both of its metrics present,
  the frame has at most ten rows, and every coefficient returned is the fixed pair
  (correlation 0, p-value 1), Pearson and Spearman alike, whatever \<open>pearsonr\<close> and
  \<open>spearmanr\<close> would compute: neither is called.
\<close>

theorem few_pairs_no_correlation:
  assumes q: "(rq, pm, qm) \<in> set research_questions"
    and few: "length (filter (\<lambda>r. notna (cell pm r) \<and> notna (cell qm r)) df) \<le> 10"
  shows "analyze_research_questions lib df
           = Inr (map (\<lambda>(rq, pm, qm). (rq, [(qm, no_correlation)])) research_questions)
         \<and> calculate_correlations lib (valid_data df) pm [qm] = Inr [(qm, no_correlation)]"
proof -
  from q have c: "pm \<in> set columns" "qm \<in> set columns"
    using question_columns by blast+
  have "length (valid_data df) \<le> length (filter (\<lambda>r. notna (cell pm r) \<and> notna (cell qm r)) df)"
    unfolding valid_data_def
    by (rule length_filter_mono) (use c in \<open>auto simp: list_all_iff\<close>)
  with few have v: "length (valid_data df) \<le> 10" by linarith
  then have "notna_count qm (valid_data df) \<le> 10"
    using notna_count_le [of qm "valid_data df"] by linarith
  then show ?thesis
    using v by (simp add: analyze_research_questions_def questions_loop_few calculate_correlations_few)
qed

theorem few_pairs_no_correlation_witness:
  "length (filter (\<lambda>r. notna (cell ''pr_size_score'' r) \<and> notna (cell ''pr_reviews_count'' r)) five_prs) \<le> 10
   \<and> calculate_correlations demo_lib (valid_data five_prs) ''pr_size_score'' [''pr_reviews_count'']
       = Inr [(''pr_reviews_count'', no_correlation)]
   \<and> map_sum id (map fst) (analyze_research_questions demo_lib five_prs)
       = Inr [''RQ01'', ''RQ02'', ''RQ03'', ''RQ04'', ''RQ05'', ''RQ06'', ''RQ07'', ''RQ08'']"
proof -
  have q: "(''RQ05'', ''pr_size_score'', ''pr_reviews_count'') \<in> set research_questions"
    by (simp add: research_questions_def)
  have few: "length (filter (\<lambda>r. notna (cell ''pr_size_score'' r) \<and> notna (cell ''pr_reviews_count'' r)) five_prs) \<le> 10"
    by (simp add: five_prs_def)
  show ?thesis
    using few few_pairs_no_correlation [OF q few, of demo_lib]
    by (simp add: research_questions_def)
qed


section \<open>Correlation Classifier: the label\<close>

lemma label_text_inj: "label_text s = label_text t \<Longrightarrow> s = t"
  by (cases s; cases t; simp add: nao_confiavel_def)

lemma interpretation_is_label: "\<exists>s. interpretation_of cd = label_text s"
proof -
  have "interpretation_of cd \<in> label_text ` {Detectable, Inexistent, Weak, WeakUnreliable, Moderate,
      ModerateUnreliable, Strong, StrongUnreliable, VeryStrong, VeryStrongUnreliable}"
    by (simp add: interpretation_of_def Let_def)
  then show ?thesis by blast
qed

lemma interpretation_table:
  assumes "correlation (pearson cd) = Fin r" and "c_p_value (pearson cd) = Fin p"
  shows "map label_text (labels_for r p) = [interpretation_of cd]"
  using assms
  by (simp add: labels_for_def classification_table_def in_range_def interpretation_of_def Let_def)

text \<open>
  C2. Every correlation result gets exactly one of the ten labels; the label depends on the
  Pearson entry alone (coefficient and p-value), whatever the Spearman entry; for a finite
  coefficient and p-value it is the one label the specification's table gives for the
  magnitude range at cut points 0.1, 0.3, 0.5, 0.7 and for \<open>p < 0.05\<close> or not; and the table
  of the report carries that label for each entry.
\<close>

theorem classification_total:
  "(\<exists>!s. interpretation_of cd = label_text s)
   \<and> (pearson cd' = pearson cd \<longrightarrow> interpretation_of cd' = interpretation_of cd)
   \<and> (correlation (pearson cd) = Fin r \<and> c_p_value (pearson cd) = Fin p
        \<longrightarrow> map label_text (labels_for r p) = [interpretation_of cd])
   \<and> map t_interpretation (format_correlation_table correlations)
        = map (\<lambda>(metric, corr_data). interpretation_of corr_data) correlations"
proof (intro conjI)
  show "\<exists>!s. interpretation_of cd = label_text s"
    using interpretation_is_label [of cd] label_text_inj by metis
  show "pearson cd' = pearson cd \<longrightarrow> interpretation_of cd' = interpretation_of cd"
    by (simp add: interpretation_of_def)
  show "correlation (pearson cd) = Fin r \<and> c_p_value (pearson cd) = Fin p
        \<longrightarrow> map label_text (labels_for r p) = [interpretation_of cd]"
    using interpretation_table by blast
  show "map t_interpretation (format_correlation_table correlations)
        = map (\<lambda>(metric, corr_data). interpretation_of corr_data) correlations"
    by (simp add: format_correlation_table_def split_def)
qed


theorem classification_total_witness:
  "interpretation_of strong_pair = label_text Strong
   \<and> labels_for (- 0.5) 0.01 = [Strong]
   \<and> interpretation_of (strong_pair \<lparr> spearman := pearson strong_pair \<rparr>) = label_text Strong
   \<and> map t_interpretation (format_correlation_table [(''pr_status_binary'', no_correlation)])
        = [label_text Inexistent]"
proof -
  have l: "labels_for (- 0.5) 0.01 = [Strong]"
    by (simp add: labels_for_def classification_table_def in_range_def)
  have p: "pearson (strong_pair \<lparr> spearman := pearson strong_pair \<rparr>) = pearson strong_pair"
    by simp
  have n: "interpretation_of no_correlation = label_text Inexistent"
    by (simp add: interpretation_of_def no_correlation_def)
  show ?thesis
    using classification_total [of strong_pair "strong_pair \<lparr> spearman := pearson strong_pair \<rparr>"
        "- 0.5" "0.01" "[(''pr_status_binary'', no_correlation)]"] l p n
    by (simp add: strong_pair_def)
qed


section \<open>Effect Size Calculator: the guard against a zero standard deviation\<close>

lemma cohens_d_of_overflowing_pair:
  "DBL_MAX < a + a \<Longrightarrow> 0 < a \<Longrightarrow> a \<le> DBL_MAX \<Longrightarrow> cohens_d_of [Fin a, Fin a] = NaN"
  by (simp add: cohens_d_of_def np_mean_def np_std_def np_sum_short overflow_def fsub_def fgt_def
      inf_of_sign_def Let_def)

text \<open>Scenario B of the specification: all differences are zero, and so is the effect size.\<close>

lemma cohens_d_of_zero_differences: "cohens_d_of [Fin 0, Fin 0, Fin 0] = Fin 0"
  by (simp add: cohens_d_of_def np_mean_def np_std_def np_sum_short overflow_small fsub_def
      fgt_def)

text \<open>
  C8 at the differences [1e308, 1e308], a list whose standard deviation is 0: the sum
  overflows, \<open>np.mean\<close> is infinity, every deviation is minus infinity, \<open>np.std\<close> is
  infinity, the guard \<open>std_diff > 0\<close> lets it pass, and the effect size is infinity divided by
  infinity: NaN, where the claim says 0 and never NaN. (The guard also lets pass the rounding
  noise that \<open>np.std\<close> returns for equal differences such as [0.1, 0.1, 0.1]; the number
  model above does not show rounding, so that input is not evaluated here.)
\<close>

theorem effect_size_overflow_nan:
  "population_std [10 ^ 308, 10 ^ 308] = 0
   \<and> cohens_d_of [Fin (10 ^ 308), Fin (10 ^ 308)] = NaN"
proof -
  have "population_std [10 ^ 308, 10 ^ 308] = 0"
    by (simp add: population_std_def arithmetic_mean_def)
  moreover have "cohens_d_of [Fin (10 ^ 308), Fin (10 ^ 308)] = NaN"
    using cohens_d_of_overflowing_pair [of "10 ^ 308"] DBL_MAX_large DBL_MAX_below by simp
  ultimately show ?thesis by simp
qed

section \<open>Reproducibility\<close>





























end
